theory Spec2Isabelle
  imports Main
begin

section \<open>Data model\<close>

text \<open>
  Go strings and byte slices are byte sequences: both are \<open>char list\<close> here.
  \<open>int64\<close> fields that the code only stores and compares (\<open>AddedOn\<close>, \<open>Size\<close>, chat
  identifiers) are \<open>int\<close>; where the code computes with an \<open>int\<close> (the page arithmetic)
  the 64-bit wrap-around is written out, see \<open>wrap64\<close> below.
\<close>

type_synonym bytes = string

text \<open>
  \<open>models.TorrentInfo\<close>: the string and \<open>int64\<close> fields that the modelled functions read.
  The floating point fields (\<open>Progress\<close>, \<open>Ratio\<close>, \<open>RatioLimit\<close>) and the fields no
  modelled function reads are left out.
\<close>

record TorrentInfo =
  Name :: string
  Hash :: string
  Size :: int
  State :: string
  SavePath :: string
  AddedOn :: int
  AmountLeft :: int
  Category :: string
  CompletionDate :: int

text \<open>\<open>models.QBittorrentCredentials\<close>.\<close>

record QBittorrentCredentials =
  URL :: string
  Username :: string
  Password :: string

text \<open>
  \<open>models.TrackerCredentials\<close>: \<open>LoginToTracker\<close> reads \<open>LoginURL\<close> and \<open>FormData\<close> only.
  \<open>FormData\<close> is a Go map that is copied key by key into the form of the login request;
  the list of pairs stands for the form that is sent.
\<close>

record TrackerCredentials =
  LoginURL :: string
  FormData :: "(string \<times> string) list"

text \<open>
  Every error the code builds with \<open>fmt.Errorf\<close> is a constructor, named after its
  message; an error wrapped with \<open>%w\<close> is the constructor's argument. The underlying
  error of a failed transport call is opaque.
\<close>

datatype error =
    LoginRequestFailed
  | LoginResponseUnreadable
  | LoginFailed bytes
  | TorrentFileEmpty
  | RequestFailed
  | ResponseBodyUnreadable
  | RequestFailedWithStatus nat bytes
  | GetTorrentsAfterAddingFailed error
  | NewTorrentNotFound
  | GetTorrentsFailed
  | ReadResponseFailed
  | ParseResponseFailed
  | CredentialsNotFound string
  | LoginFailedWithStatus nat
  | ReconnectionFailed error
  | UnknownTracker string
  | ReconnectionFailedAfterDownloadError error
  | DownloadRequestFailedAfterReconnection
  | ReconnectionFailedAfterUnauthorized error
  | DownloadFailedWithStatusAfterReconnection nat
  | DownloadFailedWithStatus nat
  | DownloadedTorrentEmpty
  | InvalidTorrentFormat
  | InvalidLinkFormat
  | CouldNotExtractID string
  | UnsupportedTracker string
  | DownloadTorrentFailed error
  | AddTorrentFailed error
  | ErrorGettingTorrents error

section \<open>The HTTP transport\<close>

text \<open>
  The daemon and the trackers are opaque HTTP endpoints. A client's \<open>http.Client\<close> with
  its cookie jar is modelled by the trace of what the client has done so far: every
  request it sent, and every replacement of its cookie jar. The remote side is a
  function from that trace and the next request to the reply, so a reply may depend on
  everything that happened before (a session cookie is a function of the earlier
  requests since the last fresh jar).
\<close>

datatype request =
    PostForm string "(string \<times> string) list"
  | Get string
  | PostMultipart string bytes string

datatype event = Sent request | NewJar

text \<open>
  A reply is a transport failure (the \<open>err\<close> of \<open>client.Get\<close>, \<open>PostForm\<close>, \<open>Do\<close>) or a
  response with its status code and its body; the body is \<open>None\<close> when \<open>io.ReadAll\<close> on
  it fails.
\<close>

datatype reply = TransportError | Response nat "bytes option"

type_synonym transport = "event list \<Rightarrow> request \<Rightarrow> reply"

text \<open>
  The environment of a run: the two remote sides, and \<open>json.Unmarshal\<close> into a slice
  of \<open>TorrentInfo\<close> (a library function, taken as a parameter; \<open>None\<close> is a parse error).
\<close>

record env =
  daemon :: transport
  tracker :: transport
  unmarshal :: "bytes \<Rightarrow> TorrentInfo list option"

definition roundTrip :: "transport \<Rightarrow> event list \<Rightarrow> request \<Rightarrow> reply \<times> event list" where
  "roundTrip srv tr rq = (srv tr rq, tr @ [Sent rq])"

text \<open>\<open>strings.HasPrefix\<close>, \<open>strings.Contains\<close> and \<open>strings.HasSuffix\<close> on byte strings.\<close>

fun HasPrefix :: "string \<Rightarrow> string \<Rightarrow> bool" where
  "HasPrefix s [] = True"
| "HasPrefix [] (p # ps) = False"
| "HasPrefix (c # cs) (p # ps) = (c = p \<and> HasPrefix cs ps)"

fun Contains :: "string \<Rightarrow> string \<Rightarrow> bool" where
  "Contains [] sub = (sub = [])"
| "Contains (c # cs) sub = (HasPrefix (c # cs) sub \<or> Contains cs sub)"

definition HasSuffix :: "string \<Rightarrow> string \<Rightarrow> bool" where
  "HasSuffix s suffix = HasPrefix (rev s) (rev suffix)"

section \<open>The qBittorrent client (internal/client/qbittorrent.go)\<close>

text \<open>
  \<open>QBittorrentClient\<close>: the \<open>client\<close> field is the trace \<open>qtrace\<close>. Methods take the
  client and return it updated, next to the Go return value; a Go \<open>error\<close> result is an
  \<open>error option\<close> (\<open>None\<close> is \<open>nil\<close>), a \<open>(value, error)\<close> result is a sum.
\<close>

record QBittorrentClient =
  config :: QBittorrentCredentials
  isLoggedIn :: bool
  qtrace :: "event list"

definition qSend :: "env \<Rightarrow> QBittorrentClient \<Rightarrow> request \<Rightarrow> reply \<times> QBittorrentClient" where
  "qSend e q rq = (case roundTrip (daemon e) (qtrace q) rq of (r, tr) \<Rightarrow> (r, q\<lparr>qtrace := tr\<rparr>))"

definition loginRequest :: "QBittorrentCredentials \<Rightarrow> request" where
  "loginRequest c =
     PostForm (URL c @ ''/api/v2/auth/login'') [(''username'', Username c), (''password'', Password c)]"

definition probeRequest :: "QBittorrentCredentials \<Rightarrow> request" where
  "probeRequest c = Get (URL c @ ''/api/v2/app/version'')"

definition Login :: "env \<Rightarrow> QBittorrentClient \<Rightarrow> error option \<times> QBittorrentClient" where
  "Login e q =
     (case qSend e q (loginRequest (config q)) of
        (TransportError, q1) \<Rightarrow> (Some LoginRequestFailed, q1)
      | (Response status None, q1) \<Rightarrow> (Some LoginResponseUnreadable, q1)
      | (Response status (Some body), q1) \<Rightarrow>
          if status \<noteq> 200 \<or> \<not> Contains body ''Ok'' then (Some (LoginFailed body), q1)
          else (None, q1\<lparr>isLoggedIn := True\<rparr>))"

definition ensureLoggedIn :: "env \<Rightarrow> QBittorrentClient \<Rightarrow> error option \<times> QBittorrentClient" where
  "ensureLoggedIn e q =
     (if isLoggedIn q then
        (case qSend e q (probeRequest (config q)) of
           (TransportError, q1) \<Rightarrow> Login e (q1\<lparr>isLoggedIn := False\<rparr>)
         | (Response status body, q1) \<Rightarrow>
             if status = 200 then (None, q1) else Login e (q1\<lparr>isLoggedIn := False\<rparr>))
      else Login e q)"

definition listRequest :: "QBittorrentCredentials \<Rightarrow> string \<Rightarrow> request" where
  "listRequest c flt =
     Get (URL c @ ''/api/v2/torrents/info'' @ (if flt \<noteq> '''' then ''?filter='' @ flt else ''''))"

text \<open>\<open>GetTorrents\<close> does not look at the status code: any body that parses is the list.\<close>

definition GetTorrents ::
  "env \<Rightarrow> QBittorrentClient \<Rightarrow> string \<Rightarrow> (error + TorrentInfo list) \<times> QBittorrentClient" where
  "GetTorrents e q flt =
     (case ensureLoggedIn e q of
        (Some err, q1) \<Rightarrow> (Inl err, q1)
      | (None, q1) \<Rightarrow>
          (case qSend e q1 (listRequest (config q1) flt) of
             (TransportError, q2) \<Rightarrow> (Inl GetTorrentsFailed, q2)
           | (Response status None, q2) \<Rightarrow> (Inl ReadResponseFailed, q2)
           | (Response status (Some body), q2) \<Rightarrow>
               (case unmarshal e body of
                  None \<Rightarrow> (Inl ParseResponseFailed, q2)
                | Some torrents \<Rightarrow> (Inr torrents, q2))))"

text \<open>
  The scan of \<open>AddTorrent\<close> for the newest record (lines 168 to 176), with the two loop
  variables \<open>newestTorrent\<close> and \<open>newestTime\<close> as accumulators. The repository needs Go
  1.23 or later (\<open>config.go\<close> ranges over the iterator \<open>strings.SplitSeq\<close>), so every
  iteration has a variable \<open>t\<close> of its own and \<open>&t\<close> keeps the record of that iteration.
\<close>

fun newestLoop :: "TorrentInfo list \<Rightarrow> TorrentInfo option \<Rightarrow> int \<Rightarrow> TorrentInfo option" where
  "newestLoop [] newestTorrent newestTime = newestTorrent"
| "newestLoop (t # ts) newestTorrent newestTime =
     (if AddedOn t > newestTime then newestLoop ts (Some t) (AddedOn t)
      else newestLoop ts newestTorrent newestTime)"

definition addRequest :: "QBittorrentCredentials \<Rightarrow> bytes \<Rightarrow> string \<Rightarrow> request" where
  "addRequest c torrentBytes savePath =
     PostMultipart (URL c @ ''/api/v2/torrents/add'') torrentBytes savePath"

text \<open>
  \<open>AddTorrent\<close>. The multipart body is written into an in-memory buffer, which does
  not fail; the request is the triple of the URL, the file part and the \<open>savepath\<close>
  field (the empty string when the field is left out).
\<close>

definition AddTorrent ::
  "env \<Rightarrow> QBittorrentClient \<Rightarrow> bytes \<Rightarrow> string \<Rightarrow> (error + TorrentInfo) \<times> QBittorrentClient" where
  "AddTorrent e q torrentBytes savePath =
     (case ensureLoggedIn e q of
        (Some err, q1) \<Rightarrow> (Inl err, q1)
      | (None, q1) \<Rightarrow>
          if length torrentBytes = 0 then (Inl TorrentFileEmpty, q1)
          else
            (case qSend e q1 (addRequest (config q1) torrentBytes savePath) of
               (TransportError, q2) \<Rightarrow> (Inl RequestFailed, q2)
             | (Response status None, q2) \<Rightarrow> (Inl ResponseBodyUnreadable, q2)
             | (Response status (Some body), q2) \<Rightarrow>
                 if status \<noteq> 200 then (Inl (RequestFailedWithStatus status body), q2)
                 else
                   (case GetTorrents e q2 '''' of
                      (Inl err, q3) \<Rightarrow> (Inl (GetTorrentsAfterAddingFailed err), q3)
                    | (Inr torrents, q3) \<Rightarrow>
                        (case newestLoop torrents None 0 of
                           None \<Rightarrow> (Inl NewTorrentNotFound, q3)
                         | Some newestTorrent \<Rightarrow> (Inr newestTorrent, q3)))))"

section \<open>The tracker client (internal/client/qbittorrent.go, second part)\<close>

definition TrackerURLs :: "string \<Rightarrow> string option" where
  "TrackerURLs =
     [''rutracker'' \<mapsto> ''https://rutracker.org/forum/dl.php?t='',
      ''kinozal'' \<mapsto> ''https://dl.kinozal.tv/download.php?id='']"

record TorrentTrackerClient =
  credentials :: "string \<Rightarrow> TrackerCredentials option"
  ttrace :: "event list"

definition tSend :: "env \<Rightarrow> TorrentTrackerClient \<Rightarrow> request \<Rightarrow> reply \<times> TorrentTrackerClient" where
  "tSend e t rq = (case roundTrip (tracker e) (ttrace t) rq of (r, tr) \<Rightarrow> (r, t\<lparr>ttrace := tr\<rparr>))"

text \<open>How \<open>LoginToTracker\<close> reads the reply to its login request (lines 390 to 400).\<close>

definition loginError :: "reply \<Rightarrow> error option" where
  "loginError r =
     (case r of
        TransportError \<Rightarrow> Some LoginRequestFailed
      | Response status body \<Rightarrow>
          if status \<noteq> 200 then Some (LoginFailedWithStatus status) else None)"

definition LoginToTracker ::
  "env \<Rightarrow> TorrentTrackerClient \<Rightarrow> string \<Rightarrow> error option \<times> TorrentTrackerClient" where
  "LoginToTracker e t trackerName =
     (case credentials t trackerName of
        None \<Rightarrow> (Some (CredentialsNotFound trackerName), t)
      | Some creds \<Rightarrow>
          (case tSend e t (PostForm (LoginURL creds) (FormData creds)) of
             (r, t1) \<Rightarrow> (loginError r, t1)))"

text \<open>
  \<open>Reconnect\<close> replaces the client by one with a fresh cookie jar (\<open>cookiejar.New(nil)\<close>
  does not fail) and logs in again. Every call leaves one \<open>NewJar\<close> in the trace.
\<close>

definition Reconnect ::
  "env \<Rightarrow> TorrentTrackerClient \<Rightarrow> string \<Rightarrow> error option \<times> TorrentTrackerClient" where
  "Reconnect e t trackerName = LoginToTracker e (t\<lparr>ttrace := ttrace t @ [NewJar]\<rparr>) trackerName"

text \<open>The checks on the body that was read (lines 459 to 473).\<close>

definition checkBody :: "bytes option \<Rightarrow> error + bytes" where
  "checkBody b =
     (case b of
        None \<Rightarrow> Inl ReadResponseFailed
      | Some body \<Rightarrow>
          if length body = 0 then Inl DownloadedTorrentEmpty
          else if length body < 10 \<or> body ! 0 \<noteq> CHR ''d'' then Inl InvalidTorrentFormat
          else Inr body)"

text \<open>What \<open>DownloadTorrent\<close> does with a response to the download request (lines 436 to 473).\<close>

definition checkStatus ::
  "env \<Rightarrow> TorrentTrackerClient \<Rightarrow> string \<Rightarrow> string \<Rightarrow> nat \<Rightarrow> bytes option
     \<Rightarrow> (error + bytes) \<times> TorrentTrackerClient" where
  "checkStatus e t trackerName downloadURL status body =
     (if status \<noteq> 200 then
        if status = 401 \<or> status = 403 then
          (case Reconnect e t trackerName of
             (Some err, t1) \<Rightarrow> (Inl (ReconnectionFailedAfterUnauthorized err), t1)
           | (None, t1) \<Rightarrow>
               (case tSend e t1 (Get downloadURL) of
                  (TransportError, t2) \<Rightarrow> (Inl DownloadRequestFailedAfterReconnection, t2)
                | (Response status2 body2, t2) \<Rightarrow>
                    if status2 \<noteq> 200 then (Inl (DownloadFailedWithStatusAfterReconnection status2), t2)
                    else (checkBody body2, t2)))
        else (Inl (DownloadFailedWithStatus status), t)
      else (checkBody body, t))"

text \<open>The download request and its one retry after a transport failure (lines 419 to 433).\<close>

definition download ::
  "env \<Rightarrow> TorrentTrackerClient \<Rightarrow> string \<Rightarrow> string \<Rightarrow> (error + bytes) \<times> TorrentTrackerClient" where
  "download e t trackerName downloadURL =
     (case tSend e t (Get downloadURL) of
        (Response status body, t1) \<Rightarrow> checkStatus e t1 trackerName downloadURL status body
      | (TransportError, t1) \<Rightarrow>
          (case Reconnect e t1 trackerName of
             (Some err, t2) \<Rightarrow> (Inl (ReconnectionFailedAfterDownloadError err), t2)
           | (None, t2) \<Rightarrow>
               (case tSend e t2 (Get downloadURL) of
                  (TransportError, t3) \<Rightarrow> (Inl DownloadRequestFailedAfterReconnection, t3)
                | (Response status body, t3) \<Rightarrow>
                    checkStatus e t3 trackerName downloadURL status body)))"

text \<open>What follows the login of \<open>DownloadTorrent\<close> (lines 413 to 420).\<close>

definition lookupAndDownload ::
  "env \<Rightarrow> TorrentTrackerClient \<Rightarrow> string \<Rightarrow> string \<Rightarrow> (error + bytes) \<times> TorrentTrackerClient" where
  "lookupAndDownload e t trackerName ident =
     (case TrackerURLs trackerName of
        None \<Rightarrow> (Inl (UnknownTracker trackerName), t)
      | Some baseURL \<Rightarrow> download e t trackerName (baseURL @ ident))"

text \<open>The login of \<open>DownloadTorrent\<close> and its one reconnect (lines 405 to 411).\<close>

definition loginOrReconnect ::
  "env \<Rightarrow> TorrentTrackerClient \<Rightarrow> string \<Rightarrow> error option \<times> TorrentTrackerClient" where
  "loginOrReconnect e t trackerName =
     (case LoginToTracker e t trackerName of
        (None, t1) \<Rightarrow> (None, t1)
      | (Some err, t1) \<Rightarrow> Reconnect e t1 trackerName)"

definition DownloadTorrent ::
  "env \<Rightarrow> TorrentTrackerClient \<Rightarrow> string \<Rightarrow> string \<Rightarrow> (error + bytes) \<times> TorrentTrackerClient" where
  "DownloadTorrent e t trackerName ident =
     (case loginOrReconnect e t trackerName of
        (Some err, t1) \<Rightarrow> (Inl (ReconnectionFailed err), t1)
      | (None, t1) \<Rightarrow> lookupAndDownload e t1 trackerName ident)"

text \<open>
  How many times a trace holds the download request, and how many times a fresh cookie
  jar (one for each call of \<open>Reconnect\<close>).
\<close>

definition downloadAttempts :: "string \<Rightarrow> event list \<Rightarrow> nat" where
  "downloadAttempts downloadURL tr = count_list tr (Sent (Get downloadURL))"

definition reconnectAttempts :: "event list \<Rightarrow> nat" where
  "reconnectAttempts tr = count_list tr NewJar"

section \<open>Download and add (internal/bot/commands.go)\<close>

text \<open>
  \<open>DownloadAndAddTorrent\<close>. Its success message is formatted from the name, the
  category and the save path of the added torrent; the triple stands for the message.
\<close>

definition DownloadAndAddTorrent ::
  "env \<Rightarrow> TorrentTrackerClient \<Rightarrow> QBittorrentClient \<Rightarrow> string \<Rightarrow> string \<Rightarrow> string
     \<Rightarrow> (error + string \<times> string \<times> string) \<times> TorrentTrackerClient \<times> QBittorrentClient" where
  "DownloadAndAddTorrent e trackerClient qbtClient trackerName ident savePath =
     (case DownloadTorrent e trackerClient trackerName ident of
        (Inl err, t1) \<Rightarrow> (Inl (DownloadTorrentFailed err), t1, qbtClient)
      | (Inr torrentBytes, t1) \<Rightarrow>
          (case AddTorrent e qbtClient torrentBytes savePath of
             (Inl err, q1) \<Rightarrow> (Inl (AddTorrentFailed err), t1, q1)
           | (Inr torrent, q1) \<Rightarrow> (Inr (Name torrent, Category torrent, SavePath torrent), t1, q1)))"

section \<open>Recognising a tracker link (internal/bot/commands.go)\<close>

text \<open>
  The regular expressions of \<open>ProcessTorrentLink\<close> are matched by the functions below,
  on bytes. For these patterns the bytes of a non-ASCII character behave as the character
  does in Go: they are no lower-case letter, no digit and no word character.
\<close>

definition isLower :: "char \<Rightarrow> bool" where
  "isLower c = (c \<in> set ''abcdefghijklmnopqrstuvwxyz'')"

definition isDigit :: "char \<Rightarrow> bool" where
  "isDigit c = (c \<in> set ''0123456789'')"

definition isWord :: "char \<Rightarrow> bool" where
  "isWord c = (c \<in> set ''0123456789ABCDEFGHIJKLMNOPQRSTUVWXYZ_abcdefghijklmnopqrstuvwxyz'')"

text \<open>
  \<open>[a-z]{2,4}\b\<close> at the start of \<open>r\<close>: two, three or four lower-case letters, after
  which the text ends or a character that is no word character follows.
\<close>

definition domainSuffixAt :: "string \<Rightarrow> bool" where
  "domainSuffixAt r =
     (\<exists>k \<in> {2, 3, 4}. k \<le> length r \<and> (\<forall>c \<in> set (take k r). isLower c)
        \<and> (drop k r = [] \<or> \<not> isWord (hd (drop k r))))"

text \<open>
  \<open>(http|https)://(kinozal|rutracker)\.[a-z]{2,4}\b([-a-zA-Z0-9@:%_+.~#?&/=]*)\<close>
  at the start of \<open>s\<close>; the last group also matches the empty string.
\<close>

definition linkAt :: "string \<Rightarrow> bool" where
  "linkAt s =
     (\<exists>scheme \<in> {''http'', ''https''}. \<exists>site \<in> {''kinozal'', ''rutracker''}.
        HasPrefix s (scheme @ ''://'' @ site @ ''.'')
        \<and> domainSuffixAt (drop (length (scheme @ ''://'' @ site @ ''.'')) s))"

text \<open>Whether the link pattern matches somewhere in the text (\<open>FindStringSubmatch\<close> is not nil).\<close>

fun torrentLinkRegex :: "string \<Rightarrow> bool" where
  "torrentLinkRegex [] = False"
| "torrentLinkRegex (c # cs) = (linkAt (c # cs) \<or> torrentLinkRegex cs)"

text \<open>\<open>FindString\<close> of \<open>kinozal|rutracker\<close>: the leftmost match, the empty string when there is none.\<close>

fun trackerRegex :: "string \<Rightarrow> string" where
  "trackerRegex [] = []"
| "trackerRegex (c # cs) =
     (if HasPrefix (c # cs) ''kinozal'' then ''kinozal''
      else if HasPrefix (c # cs) ''rutracker'' then ''rutracker''
      else trackerRegex cs)"

text \<open>
  The first group of the leftmost match of \<open>key(\d+)\<close>, for the keys \<open>t=\<close> and \<open>id=\<close>:
  the longest run of digits after the leftmost occurrence of the key that a digit follows.
\<close>

fun idRegex :: "string \<Rightarrow> string \<Rightarrow> string option" where
  "idRegex key [] = None"
| "idRegex key (c # cs) =
     (if HasPrefix (c # cs) key \<and> takeWhile isDigit (drop (length key) (c # cs)) \<noteq> []
      then Some (takeWhile isDigit (drop (length key) (c # cs)))
      else idRegex key cs)"

definition ProcessTorrentLink :: "string \<Rightarrow> error + string \<times> string" where
  "ProcessTorrentLink link =
     (if \<not> torrentLinkRegex link then Inl InvalidLinkFormat
      else
        let trackerName = trackerRegex link in
        if trackerName = ''rutracker'' then
          (case idRegex ''t='' link of
             None \<Rightarrow> Inl (CouldNotExtractID ''rutracker'')
           | Some ident \<Rightarrow> Inr (trackerName, ident))
        else if trackerName = ''kinozal'' then
          (case idRegex ''id='' link of
             None \<Rightarrow> Inl (CouldNotExtractID ''kinozal'')
           | Some ident \<Rightarrow> Inr (trackerName, ident))
        else Inl (UnsupportedTracker trackerName))"

section \<open>Pagination (internal/bot/commands.go, internal/bot/keyboard.go)\<close>

text \<open>
  A Go \<open>int\<close> has 64 bits on the platforms the image is built for; sums and products wrap
  around. \<open>wrap64\<close> is the value of a mathematical integer as an \<open>int\<close>.
\<close>

definition wrap64 :: "int \<Rightarrow> int" where
  "wrap64 k = (k + 2 ^ 63) mod 2 ^ 64 - 2 ^ 63"

text \<open>
  The slice expression \<open>s[lo:hi]\<close>: a run-time panic (\<open>None\<close>) unless
  \<open>0 \<le> lo \<le> hi \<le> cap(s)\<close>. Both uses below clamp \<open>hi\<close> to \<open>len(s)\<close>, which is at most
  the capacity, so the bound on \<open>hi\<close> is written with the length.
\<close>

definition sliceOf :: "'a list \<Rightarrow> int \<Rightarrow> int \<Rightarrow> 'a list option" where
  "sliceOf xs lo hi =
     (if 0 \<le> lo \<and> lo \<le> hi \<and> hi \<le> int (length xs)
      then Some (take (nat hi - nat lo) (drop (nat lo) xs)) else None)"

text \<open>
  The page of \<open>HandleTorrentStatus\<close> (lines 97 to 105, with \<open>maxButtons\<close> 10) and of
  \<open>CreateTorrentListKeyboard\<close> (lines 60 to 66).
\<close>

definition pageItems :: "'a list \<Rightarrow> int \<Rightarrow> int \<Rightarrow> 'a list option" where
  "pageItems torrents maxButtons currentPage =
     (let startIndex = wrap64 (currentPage * maxButtons);
          endIndex = wrap64 (startIndex + maxButtons);
          endIndex = (if endIndex > int (length torrents) then int (length torrents) else endIndex)
      in sliceOf torrents startIndex endIndex)"

text \<open>Integer division of Go: truncated towards zero, a panic on a zero divisor.\<close>

definition quotient :: "int \<Rightarrow> int \<Rightarrow> int option" where
  "quotient a b =
     (if b = 0 then None
      else Some (wrap64 (if (a < 0) = (b < 0) then \<bar>a\<bar> div \<bar>b\<bar> else - (\<bar>a\<bar> div \<bar>b\<bar>))))"

text \<open>
  The buttons of the list keyboard, by what they carry: a torrent button has its label
  (the name, cut to 27 bytes and three dots when longer than 30) and the callback data
  \<open>manage:<hash>:page:<page>\<close>; the two pagination buttons carry \<open>list:page:<page>\<close>.
\<close>

datatype button = TorrentButton string string int | PreviousButton int | NextButton int

definition buttonName :: "string \<Rightarrow> string" where
  "buttonName name = (if length name > 30 then take 27 name @ ''...'' else name)"

definition CreateTorrentListKeyboard ::
  "TorrentInfo list \<Rightarrow> int \<Rightarrow> int \<Rightarrow> button list list option" where
  "CreateTorrentListKeyboard torrents maxButtons currentPage =
     (case quotient (wrap64 (wrap64 (int (length torrents) + maxButtons) - 1)) maxButtons of
        None \<Rightarrow> None
      | Some totalPages \<Rightarrow>
          (case pageItems torrents maxButtons currentPage of
             None \<Rightarrow> None
           | Some items \<Rightarrow>
               let rows = map (\<lambda>torrent. [TorrentButton (buttonName (Name torrent)) (Hash torrent) currentPage])
                            items;
                   paginationRow =
                     (if currentPage > 0 then [PreviousButton (wrap64 (currentPage - 1))] else [])
                     @ (if currentPage < wrap64 (totalPages - 1)
                        then [NextButton (wrap64 (currentPage + 1))] else [])
               in Some (if length paginationRow > 0 then rows @ [paginationRow] else rows)))"

text \<open>
  \<open>HandleTorrentStatus\<close>. The text of the status message is formatted from the records of
  the page, the page number, the number of pages and the number of torrents; \<open>StatusPage\<close>
  carries these. The outer \<open>None\<close> is a run-time panic.
\<close>

datatype status_text = NoTorrentsFound | StatusPage "TorrentInfo list" int int int

definition HandleTorrentStatus ::
  "env \<Rightarrow> QBittorrentClient \<Rightarrow> int
     \<Rightarrow> (error + status_text \<times> button list list) option \<times> QBittorrentClient" where
  "HandleTorrentStatus e qbt page =
     (case GetTorrents e qbt [] of
        (Inl err, q1) \<Rightarrow> (Some (Inl (ErrorGettingTorrents err)), q1)
      | (Inr torrents, q1) \<Rightarrow>
          if length torrents = 0 then (Some (Inr (NoTorrentsFound, [])), q1)
          else
            (case pageItems torrents 10 page of
               None \<Rightarrow> (None, q1)
             | Some items \<Rightarrow>
                 (case quotient (wrap64 (wrap64 (int (length torrents) + 10) - 1)) 10 of
                    None \<Rightarrow> (None, q1)
                  | Some pages \<Rightarrow>
                      (case CreateTorrentListKeyboard torrents 10 page of
                         None \<Rightarrow> (None, q1)
                       | Some keyboard \<Rightarrow>
                           (Some (Inr (StatusPage items (wrap64 (page + 1)) pages
                                         (int (length torrents)), keyboard)), q1)))))"

section \<open>The bot (internal/bot/keyboard.go)\<close>

text \<open>
  \<open>models.TorrentCategory\<close> and the two fields of \<open>config.Config\<close> that the handlers read.
  The fields of a category carry the prefix \<open>Category\<close>, since \<open>TorrentInfo\<close> has a
  \<open>Name\<close> and a \<open>SavePath\<close> of its own.
\<close>

record TorrentCategory =
  CategoryName :: string
  CategorySavePath :: string
  CategoryCallback :: string

record Config =
  TorrentCategories :: "string \<Rightarrow> TorrentCategory option"
  AllowedUsers :: "int list"

text \<open>
  The chat transport is an external collaborator. A message text is given by what it is
  formatted from; a call on \<open>api\<close> is logged; \<open>telegram\<close> says whether a call succeeds,
  given the calls made before. \<open>strconv.Atoi\<close> (with its error dropped, as the code does)
  and \<open>strings.ToLower\<close> are library functions, taken as parameters.
\<close>

datatype message_text =
    NotAuthorized
  | UnknownCommand
  | CategoryQuestion
  | FailedToSendKeyboard
  | ProcessingDownload
  | InvalidCategory
  | ErrorProcessingLink error
  | DownloadFailedText error
  | Added "string \<times> string \<times> string" string
  | InvalidCallbackData
  | UnknownAction
  | UnknownCallbackData

datatype api_call =
    AnswerCallback string
  | SendText int message_text
  | SendCategoryKeyboard int
  | EditText int int message_text

record chat =
  telegram :: "api_call list \<Rightarrow> api_call \<Rightarrow> bool"
  Atoi :: "string \<Rightarrow> int"
  ToLower :: "string \<Rightarrow> string"

text \<open>
  The handlers that talk to the daemon and render its answer (\<open>handleTorrentDetails\<close>,
  \<open>handleTorrentAction\<close>, \<open>handleListPagination\<close> and the command handlers behind the
  allow-list) are not unfolded here: the model records that the handler is entered, with
  its arguments. None of them mentions \<open>pendingLinks\<close>.
\<close>

datatype handler =
    TorrentDetails int int string int
  | TorrentAction int int string string
  | ListPagination int int int
  | HelpCommand int
  | StatusCommand int
  | TorrentCommand int string
  | ListCommand int
  | ReconnectCommand int
  | PasswordCommand int

text \<open>
  \<open>Bot\<close>: the configuration, the two clients, the pending-link table (a Go map from the
  chat identifier to the text of the message), and the two logs. Every update is handled
  by a goroutine of its own and the map is not locked; the model runs one handler after
  the other.
\<close>

record Bot =
  botConfig :: Config
  qbtClient :: QBittorrentClient
  trackerClient :: TorrentTrackerClient
  pendingLinks :: "int \<Rightarrow> string option"
  api :: "api_call list"
  entered :: "handler list"

text \<open>
  An inbound callback query (its identifier, its data, the chat and the message of the
  keyboard), an inbound message (its chat, its text, and what \<open>IsCommand\<close>, \<open>Command\<close> and
  \<open>CommandArguments\<close> of the library return for it), and an update that may carry either.
\<close>

datatype CallbackQuery = CallbackQuery string string int int

datatype Message = Message int string bool string string

datatype Update = Update "CallbackQuery option" "Message option"

definition apiCall :: "chat \<Rightarrow> Bot \<Rightarrow> api_call \<Rightarrow> bool \<times> Bot" where
  "apiCall c b call = (telegram c (api b) call, b\<lparr>api := api b @ [call]\<rparr>)"

definition sendErrorMessage :: "chat \<Rightarrow> Bot \<Rightarrow> int \<Rightarrow> message_text \<Rightarrow> Bot" where
  "sendErrorMessage c b chatID txt = snd (apiCall c b (SendText chatID txt))"

definition enter :: "Bot \<Rightarrow> handler \<Rightarrow> Bot" where
  "enter b h = b\<lparr>entered := entered b @ [h]\<rparr>"

text \<open>\<open>b.pendingLinks[chatID]\<close>: the empty string for a chat without an entry.\<close>

definition pendingLink :: "Bot \<Rightarrow> int \<Rightarrow> string" where
  "pendingLink b chatID = (case pendingLinks b chatID of None \<Rightarrow> [] | Some link \<Rightarrow> link)"

text \<open>\<open>strings.Split\<close> with a separator of one byte.\<close>

fun Split :: "string \<Rightarrow> char \<Rightarrow> string list" where
  "Split [] sep = [[]]"
| "Split (c # cs) sep =
     (if c = sep then [] # Split cs sep
      else (case Split cs sep of [] \<Rightarrow> [[c]] | p # ps \<Rightarrow> (c # p) # ps))"

definition handleTorrentDownload ::
  "env \<Rightarrow> chat \<Rightarrow> Bot \<Rightarrow> int \<Rightarrow> int \<Rightarrow> string \<Rightarrow> string \<Rightarrow> Bot" where
  "handleTorrentDownload e c b chatID messageID torrentLink categoryKey =
     (let b1 = snd (apiCall c b (EditText chatID messageID ProcessingDownload)) in
      case TorrentCategories (botConfig b1) categoryKey of
        None \<Rightarrow> sendErrorMessage c b1 chatID InvalidCategory
      | Some category \<Rightarrow>
          (case ProcessTorrentLink torrentLink of
             Inl err \<Rightarrow> sendErrorMessage c b1 chatID (ErrorProcessingLink err)
           | Inr (trackerName, ident) \<Rightarrow>
               (case DownloadAndAddTorrent e (trackerClient b1) (qbtClient b1) trackerName ident
                       (CategorySavePath category) of
                  (Inl err, t1, q1) \<Rightarrow>
                    sendErrorMessage c (b1\<lparr>trackerClient := t1, qbtClient := q1\<rparr>) chatID
                      (DownloadFailedText err)
                | (Inr result, t1, q1) \<Rightarrow>
                    (let b2 = snd (apiCall c (b1\<lparr>trackerClient := t1, qbtClient := q1\<rparr>)
                                     (EditText chatID messageID
                                        (Added result (CategorySavePath category))))
                     in b2\<lparr>pendingLinks := (pendingLinks b2)(chatID := None)\<rparr>))))"

definition handleTorrentLink :: "chat \<Rightarrow> Bot \<Rightarrow> Message \<Rightarrow> Bot" where
  "handleTorrentLink c b message =
     (case message of Message chatID txt isCommand command args \<Rightarrow>
        (let b1 = b\<lparr>pendingLinks := (pendingLinks b)(chatID \<mapsto> txt)\<rparr> in
         case apiCall c b1 (SendCategoryKeyboard chatID) of
           (True, b2) \<Rightarrow> b2
         | (False, b2) \<Rightarrow> sendErrorMessage c b2 chatID FailedToSendKeyboard))"

definition handleCallbackQuery :: "env \<Rightarrow> chat \<Rightarrow> Bot \<Rightarrow> CallbackQuery \<Rightarrow> Bot" where
  "handleCallbackQuery e c b query =
     (case query of CallbackQuery queryID data chatID messageID \<Rightarrow>
        (let b1 = snd (apiCall c b (AnswerCallback queryID)) in
         if HasSuffix data ''.'' \<and> pendingLink b1 chatID \<noteq> [] then
           handleTorrentDownload e c b1 chatID messageID (pendingLink b1 chatID) data
         else if Contains data '':'' then
           (let parts = Split data (CHR '':'') in
            if length parts < 2 then sendErrorMessage c b1 chatID InvalidCallbackData
            else
              let action = parts ! 0 in
              if action = ''manage'' then
                (if length parts > 2 \<and> parts ! 2 = ''page'' \<and> length parts > 3
                 then enter b1 (TorrentDetails chatID messageID (parts ! 1) (Atoi c (parts ! 3)))
                 else enter b1 (TorrentDetails chatID messageID (parts ! 1) 0))
              else if action \<in> set [''pause'', ''resume'', ''delete'', ''deletewithdata'', ''info'']
              then enter b1 (TorrentAction chatID messageID action (parts ! 1))
              else if action = ''list'' then
                (if length parts > 2 \<and> parts ! 1 = ''page''
                 then enter b1 (ListPagination chatID messageID (Atoi c (parts ! 2)))
                 else b1)
              else sendErrorMessage c b1 chatID UnknownAction)
         else sendErrorMessage c b1 chatID UnknownCallbackData))"

definition handleCommand :: "chat \<Rightarrow> Bot \<Rightarrow> Message \<Rightarrow> Bot" where
  "handleCommand c b message =
     (case message of Message chatID txt isCommand cmd args \<Rightarrow>
        (let command = ToLower c cmd in
         if chatID \<notin> set (AllowedUsers (botConfig b))
         then snd (apiCall c b (SendText chatID NotAuthorized))
         else if command = ''start'' \<or> command = ''help'' then enter b (HelpCommand chatID)
         else if command = ''status'' then enter b (StatusCommand chatID)
         else if command = ''torrent'' then enter b (TorrentCommand chatID args)
         else if command = ''list'' then enter b (ListCommand chatID)
         else if command = ''reconnect'' then enter b (ReconnectCommand chatID)
         else if command = ''password'' then enter b (PasswordCommand chatID)
         else snd (apiCall c b (SendText chatID UnknownCommand))))"

definition handleUpdate :: "env \<Rightarrow> chat \<Rightarrow> Bot \<Rightarrow> Update \<Rightarrow> Bot" where
  "handleUpdate e c b update =
     (case update of
        Update (Some query) message \<Rightarrow> handleCallbackQuery e c b query
      | Update None None \<Rightarrow> b
      | Update None (Some (Message chatID txt isCommand command args)) \<Rightarrow>
          if torrentLinkRegex txt
          then handleTorrentLink c b (Message chatID txt isCommand command args)
          else if isCommand
          then handleCommand c b (Message chatID txt isCommand command args)
          else b)"

section \<open>Scenarios\<close>

text \<open>
  Concrete environments and clients on which the theorems below are exercised: a daemon
  that answers every request with status 200 and the body \<open>Ok.\<close> and whose list decodes
  to a given slice of records, a client that has not logged in yet, and a record with a
  given added-timestamp.
\<close>

definition daemonListing :: "TorrentInfo list \<Rightarrow> env" where
  "daemonListing ts =
     \<lparr>daemon = (\<lambda>h rq. Response 200 (Some ''Ok.'')),
      tracker = (\<lambda>h rq. TransportError),
      unmarshal = (\<lambda>b. Some ts)\<rparr>"

definition freshClient :: QBittorrentClient where
  "freshClient =
     \<lparr>config = \<lparr>URL = ''http://localhost:8080'', Username = ''admin'', Password = ''secret''\<rparr>,
      isLoggedIn = False, qtrace = []\<rparr>"

definition stamped :: "int \<Rightarrow> TorrentInfo" where
  "stamped n =
     \<lparr>Name = ''t'', Hash = ''h'', Size = 0, State = ''downloading'', SavePath = ''/d'',
      AddedOn = n, AmountLeft = 0, Category = '''', CompletionDate = 0\<rparr>"

text \<open>
  A tracker that accepts every login and answers every download request with a given
  status and body, and a tracker client configured for \<open>rutracker\<close> as \<open>config.go\<close> does.
\<close>

definition trackerAnswering :: "nat \<Rightarrow> bytes \<Rightarrow> env" where
  "trackerAnswering status body =
     \<lparr>daemon = (\<lambda>h rq. Response 200 (Some ''Ok.'')),
      tracker = (\<lambda>h rq. case rq of Get u \<Rightarrow> Response status (Some body)
                                   | PostForm u f \<Rightarrow> Response 200 (Some [])
                                   | PostMultipart u b p \<Rightarrow> TransportError),
      unmarshal = (\<lambda>b. Some [])\<rparr>"

definition rutrackerCredentials :: TrackerCredentials where
  "rutrackerCredentials =
     \<lparr>LoginURL = ''https://rutracker.org/forum/login.php'',
      FormData = [(''login_username'', ''user''), (''login_password'', ''pass''), (''login'', ''in'')]\<rparr>"

definition rutrackerClient :: TorrentTrackerClient where
  "rutrackerClient = \<lparr>credentials = [''rutracker'' \<mapsto> rutrackerCredentials], ttrace = []\<rparr>"

text \<open>A tracker client without credentials, and a tracker that refuses every request.\<close>

definition unconfiguredClient :: TorrentTrackerClient where
  "unconfiguredClient = \<lparr>credentials = Map.empty, ttrace = []\<rparr>"

definition trackerRefusing :: env where
  "trackerRefusing =
     \<lparr>daemon = (\<lambda>h rq. Response 200 (Some ''Ok.'')),
      tracker = (\<lambda>h rq. Response 403 (Some [])),
      unmarshal = (\<lambda>b. Some [])\<rparr>"

text \<open>
  A chat transport on which every call succeeds, a configuration with one category and
  one allowed user, an environment in which the tracker serves a well-formed payload and
  the daemon lists one record, and a bot that has just started.
\<close>

definition quietChat :: chat where
  "quietChat = \<lparr>telegram = (\<lambda>h call. True), Atoi = (\<lambda>s. 0), ToLower = (\<lambda>s. s)\<rparr>"

definition exampleConfig :: Config where
  "exampleConfig =
     \<lparr>TorrentCategories =
        [''Movies.'' \<mapsto> \<lparr>CategoryName = ''Movies.'', CategorySavePath = ''/movies'',
                          CategoryCallback = ''Movies.''\<rparr>],
      AllowedUsers = [1000]\<rparr>"

definition servingEnv :: env where
  "servingEnv =
     \<lparr>daemon = (\<lambda>h rq. Response 200 (Some ''Ok.'')),
      tracker = (\<lambda>h rq. case rq of Get u \<Rightarrow> Response 200 (Some ''d8:announce3:urle'')
                                   | PostForm u f \<Rightarrow> Response 200 (Some [])
                                   | PostMultipart u b p \<Rightarrow> TransportError),
      unmarshal = (\<lambda>b. Some [stamped 5])\<rparr>"

definition exampleBot :: Bot where
  "exampleBot =
     \<lparr>botConfig = exampleConfig, qbtClient = freshClient, trackerClient = rutrackerClient,
      pendingLinks = Map.empty, api = [], entered = []\<rparr>"

definition rutrackerLink :: string where
  "rutrackerLink = ''https://rutracker.org/forum/dl.php?t=555''"

section \<open>The newest record\<close>

lemma newestLoop_unchanged:
  "\<forall>t\<in>set ts. AddedOn t \<le> n \<Longrightarrow> newestLoop ts acc n = acc"
  by (induction ts arbitrary: acc n) auto

lemma newestLoop_first_max:
  "\<exists>t\<in>set ts. n < AddedOn t \<Longrightarrow>
   \<exists>pre r post. newestLoop ts acc n = Some r \<and> ts = pre @ r # post \<and> n < AddedOn r
      \<and> (\<forall>t\<in>set pre. AddedOn t < AddedOn r) \<and> (\<forall>t\<in>set post. AddedOn t \<le> AddedOn r)"
proof (induction ts arbitrary: acc n)
  case Nil
  then show ?case by simp
next
  case (Cons a ts)
  show ?case
  proof (cases "n < AddedOn a")
    case True
    show ?thesis
    proof (cases "\<exists>t\<in>set ts. AddedOn a < AddedOn t")
      case True
      from Cons.IH[OF True, of "Some a"] obtain pre r post where
        h: "newestLoop ts (Some a) (AddedOn a) = Some r" "ts = pre @ r # post" "AddedOn a < AddedOn r"
           "\<forall>t\<in>set pre. AddedOn t < AddedOn r" "\<forall>t\<in>set post. AddedOn t \<le> AddedOn r"
        by blast
      have "newestLoop (a # ts) acc n = Some r" using \<open>n < AddedOn a\<close> h(1) by simp
      moreover have "a # ts = (a # pre) @ r # post" using h(2) by simp
      moreover have "n < AddedOn r" using \<open>n < AddedOn a\<close> h(3) by simp
      moreover have "\<forall>t\<in>set (a # pre). AddedOn t < AddedOn r" using h(3,4) by simp
      ultimately show ?thesis using h(5) by blast
    next
      case False
      then have le: "\<forall>t\<in>set ts. AddedOn t \<le> AddedOn a" by auto
      have "newestLoop (a # ts) acc n = Some a"
        using \<open>n < AddedOn a\<close> newestLoop_unchanged[OF le] by simp
      moreover have "a # ts = [] @ a # ts" by simp
      ultimately show ?thesis using \<open>n < AddedOn a\<close> le by fastforce
    qed
  next
    case False
    with Cons.prems have ex: "\<exists>t\<in>set ts. n < AddedOn t" by auto
    from Cons.IH[OF ex, of acc] obtain pre r post where
      h: "newestLoop ts acc n = Some r" "ts = pre @ r # post" "n < AddedOn r"
         "\<forall>t\<in>set pre. AddedOn t < AddedOn r" "\<forall>t\<in>set post. AddedOn t \<le> AddedOn r"
      by blast
    have "newestLoop (a # ts) acc n = Some r" using False h(1) by simp
    moreover have "a # ts = (a # pre) @ r # post" using h(2) by simp
    moreover have "\<forall>t\<in>set (a # pre). AddedOn t < AddedOn r" using False h(3,4) by simp
    ultimately show ?thesis using h(3,5) by blast
  qed
qed

section \<open>Adding a torrent\<close>

text \<open>
  Once the session check has passed, the payload is not empty and the upload was answered
  with status 200, the result of \<open>AddTorrent\<close> is decided by the scan of the re-listed
  records.
\<close>

lemma AddTorrent_after_upload:
  fixes e q torrentBytes savePath
  defines "q1 \<equiv> snd (ensureLoggedIn e q)"
  defines "up \<equiv> qSend e q1 (addRequest (config q1) torrentBytes savePath)"
  defines "ls \<equiv> GetTorrents e (snd up) ''''"
  assumes session: "fst (ensureLoggedIn e q) = None" and payload: "torrentBytes \<noteq> []"
    and upload: "fst up = Response 200 (Some body)" and relist: "fst ls = Inr torrents"
  shows "AddTorrent e q torrentBytes savePath =
     (case newestLoop torrents None 0 of
        None \<Rightarrow> (Inl NewTorrentNotFound, snd ls)
      | Some r \<Rightarrow> (Inr r, snd ls))"
  using assms
  by (auto simp: AddTorrent_def split: prod.splits option.splits reply.splits sum.splits)

lemma fresh_run:
  "ensureLoggedIn (daemonListing ts) freshClient =
     (None, freshClient\<lparr>isLoggedIn := True, qtrace := [Sent (loginRequest (config freshClient))]\<rparr>)"
  by (simp add: ensureLoggedIn_def Login_def qSend_def roundTrip_def daemonListing_def freshClient_def)

lemma fresh_add:
  "torrentBytes \<noteq> [] \<Longrightarrow>
   fst (AddTorrent (daemonListing ts) freshClient torrentBytes savePath) =
     (case newestLoop ts None 0 of None \<Rightarrow> Inl NewTorrentNotFound | Some r \<Rightarrow> Inr r)"
  by (simp add: AddTorrent_def fresh_run GetTorrents_def ensureLoggedIn_def Login_def qSend_def
        roundTrip_def daemonListing_def split: option.splits)

lemma ensureLoggedIn_trace:
  "qtrace (snd (ensureLoggedIn e q)) = qtrace q @ [Sent (loginRequest (config q))]
   \<or> qtrace (snd (ensureLoggedIn e q)) = qtrace q @ [Sent (probeRequest (config q))]
   \<or> qtrace (snd (ensureLoggedIn e q)) =
        qtrace q @ [Sent (probeRequest (config q)), Sent (loginRequest (config q))]"
  by (auto simp: ensureLoggedIn_def Login_def qSend_def roundTrip_def
        split: prod.splits option.splits reply.splits)

text \<open>
  Claim C1, as the code has it. \<open>AddTorrent\<close> runs the session check before it looks at
  the payload. For an empty payload it therefore sends one or two requests (the login,
  the probe, or the probe and then the login), fails with the error of the session check
  when that fails and with the empty-payload error otherwise, and sends neither the
  upload nor the list request.
\<close>

theorem add_empty_payload_after_session_check:
  "AddTorrent e q [] savePath =
     (case ensureLoggedIn e q of
        (Some err, q1) \<Rightarrow> (Inl err, q1)
      | (None, q1) \<Rightarrow> (Inl TorrentFileEmpty, q1))
   \<and> (qtrace (snd (AddTorrent e q [] savePath)) = qtrace q @ [Sent (loginRequest (config q))]
      \<or> qtrace (snd (AddTorrent e q [] savePath)) = qtrace q @ [Sent (probeRequest (config q))]
      \<or> qtrace (snd (AddTorrent e q [] savePath)) =
           qtrace q @ [Sent (probeRequest (config q)), Sent (loginRequest (config q))])"
proof -
  have a: "AddTorrent e q [] savePath =
     (case ensureLoggedIn e q of
        (Some err, q1) \<Rightarrow> (Inl err, q1)
      | (None, q1) \<Rightarrow> (Inl TorrentFileEmpty, q1))"
    by (simp add: AddTorrent_def split: prod.splits option.splits)
  then have "snd (AddTorrent e q [] savePath) = snd (ensureLoggedIn e q)"
    by (simp split: prod.splits option.splits)
  with a ensureLoggedIn_trace[of e q] show ?thesis by simp
qed

theorem add_empty_payload_witness:
  "AddTorrent (daemonListing []) freshClient [] ''/downloads'' =
     (Inl TorrentFileEmpty,
      freshClient\<lparr>isLoggedIn := True, qtrace := [Sent (loginRequest (config freshClient))]\<rparr>)"
  using add_empty_payload_after_session_check[of "daemonListing []" freshClient "''/downloads''"]
  by (simp add: fresh_run)

text \<open>
  Claim C1 as stated fails: a client that has not logged in yet, given an empty payload,
  reports the empty-payload error after one HTTP request (the login).
\<close>

theorem add_empty_payload_counterexample:
  "fst (AddTorrent (daemonListing []) freshClient [] ''/downloads'') = Inl TorrentFileEmpty
   \<and> length (qtrace (snd (AddTorrent (daemonListing []) freshClient [] ''/downloads''))) = 1"
  by (simp add: AddTorrent_def fresh_run)

text \<open>
  Claim C6, as the code has it. After a successful upload and a re-list, \<open>AddTorrent\<close>
  returns the first listed record with the greatest added-timestamp when some record
  has a strictly positive added-timestamp, and reports that the new torrent was not found
  when no record has one (the empty list included).
\<close>

theorem add_returns_first_newest_positive:
  fixes e q torrentBytes savePath
  defines "q1 \<equiv> snd (ensureLoggedIn e q)"
  defines "up \<equiv> qSend e q1 (addRequest (config q1) torrentBytes savePath)"
  defines "ls \<equiv> GetTorrents e (snd up) ''''"
  assumes session: "fst (ensureLoggedIn e q) = None" and payload: "torrentBytes \<noteq> []"
    and upload: "fst up = Response 200 (Some body)" and relist: "fst ls = Inr torrents"
  shows "((\<exists>t\<in>set torrents. 0 < AddedOn t) \<longrightarrow>
            (\<exists>pre r post. AddTorrent e q torrentBytes savePath = (Inr r, snd ls)
               \<and> torrents = pre @ r # post \<and> 0 < AddedOn r
               \<and> (\<forall>t\<in>set pre. AddedOn t < AddedOn r)
               \<and> (\<forall>t\<in>set post. AddedOn t \<le> AddedOn r)))
       \<and> ((\<forall>t\<in>set torrents. AddedOn t \<le> 0) \<longrightarrow>
            AddTorrent e q torrentBytes savePath = (Inl NewTorrentNotFound, snd ls))"
proof -
  have eq: "AddTorrent e q torrentBytes savePath =
     (case newestLoop torrents None 0 of
        None \<Rightarrow> (Inl NewTorrentNotFound, snd ls)
      | Some r \<Rightarrow> (Inr r, snd ls))"
    using AddTorrent_after_upload[of e q torrentBytes savePath body torrents]
      session payload upload relist
    unfolding q1_def up_def ls_def by simp
  have pos: "\<exists>pre r post. AddTorrent e q torrentBytes savePath = (Inr r, snd ls)
               \<and> torrents = pre @ r # post \<and> 0 < AddedOn r
               \<and> (\<forall>t\<in>set pre. AddedOn t < AddedOn r)
               \<and> (\<forall>t\<in>set post. AddedOn t \<le> AddedOn r)"
    if "\<exists>t\<in>set torrents. 0 < AddedOn t"
  proof -
    from newestLoop_first_max[OF that, of None] obtain pre r post where
      h: "newestLoop torrents None 0 = Some r" "torrents = pre @ r # post" "0 < AddedOn r"
         "\<forall>t\<in>set pre. AddedOn t < AddedOn r" "\<forall>t\<in>set post. AddedOn t \<le> AddedOn r"
      by blast
    from eq h(1) have "AddTorrent e q torrentBytes savePath = (Inr r, snd ls)" by simp
    with h(2-5) show ?thesis by blast
  qed
  have non: "AddTorrent e q torrentBytes savePath = (Inl NewTorrentNotFound, snd ls)"
    if "\<forall>t\<in>set torrents. AddedOn t \<le> 0"
    using eq newestLoop_unchanged[OF that, of None] by simp
  show ?thesis using pos non by blast
qed

text \<open>The scenario of the specification: timestamps 10, 30, 20 select the record with 30.\<close>

theorem add_returns_first_newest_positive_witness:
  "fst (AddTorrent (daemonListing [stamped 10, stamped 30, stamped 20]) freshClient
          ''d8:announce0:e'' ''/downloads'') = Inr (stamped 30)"
  using add_returns_first_newest_positive
     [of "daemonListing [stamped 10, stamped 30, stamped 20]" freshClient
         "''d8:announce0:e''" "''/downloads''" "''Ok.''" "[stamped 10, stamped 30, stamped 20]"]
  by (simp add: fresh_add stamped_def)

text \<open>
  Claim C6 as stated fails: the re-list holds one record, whose added-timestamp 0 is the
  greatest of the list, and \<open>AddTorrent\<close> does not return it.
\<close>

theorem add_newest_counterexample:
  "fst (AddTorrent (daemonListing [stamped 0]) freshClient ''d8:announce0:e'' ''/downloads'')
     = Inl NewTorrentNotFound"
  by (simp add: fresh_add stamped_def)

text \<open>
  Claim C9. After a successful upload, when the re-list is a non-empty list in which every
  record has an added-timestamp of at most zero, \<open>AddTorrent\<close> reports that the new torrent
  was not found.
\<close>

theorem add_reports_not_found_without_positive_timestamp:
  fixes e q torrentBytes savePath
  defines "q1 \<equiv> snd (ensureLoggedIn e q)"
  defines "up \<equiv> qSend e q1 (addRequest (config q1) torrentBytes savePath)"
  defines "ls \<equiv> GetTorrents e (snd up) ''''"
  assumes session: "fst (ensureLoggedIn e q) = None" and payload: "torrentBytes \<noteq> []"
    and upload: "fst up = Response 200 (Some body)" and relist: "fst ls = Inr torrents"
    and listed: "torrents \<noteq> []" and old: "\<forall>t\<in>set torrents. AddedOn t \<le> 0"
  shows "AddTorrent e q torrentBytes savePath = (Inl NewTorrentNotFound, snd ls)"
proof -
  have "newestLoop torrents None 0 = None"
    using old by (rule newestLoop_unchanged)
  then show ?thesis
    using AddTorrent_after_upload[of e q torrentBytes savePath body torrents]
      session payload upload relist
    unfolding q1_def up_def ls_def by simp
qed

theorem add_reports_not_found_witness:
  "fst (AddTorrent (daemonListing [stamped 0, stamped (-5)]) freshClient ''d8:announce0:e'' ''/downloads'')
     = Inl NewTorrentNotFound"
  using add_reports_not_found_without_positive_timestamp
     [of "daemonListing [stamped 0, stamped (-5)]" freshClient "''d8:announce0:e''" "''/downloads''"
         "''Ok.''" "[stamped 0, stamped (-5)]"]
  by (simp add: fresh_add stamped_def)

section \<open>Downloading from a tracker\<close>

lemma tSend_eq: "tSend e t rq = (tracker e (ttrace t) rq, t\<lparr>ttrace := ttrace t @ [Sent rq]\<rparr>)"
  by (simp add: tSend_def roundTrip_def)

lemma LoginToTracker_known:
  "credentials t trackerName = Some c \<Longrightarrow>
   LoginToTracker e t trackerName =
     (loginError (tracker e (ttrace t) (PostForm (LoginURL c) (FormData c))),
      t\<lparr>ttrace := ttrace t @ [Sent (PostForm (LoginURL c) (FormData c))]\<rparr>)"
  by (simp add: LoginToTracker_def tSend_eq)

lemma Reconnect_known:
  "credentials t trackerName = Some c \<Longrightarrow>
   Reconnect e t trackerName =
     (loginError (tracker e (ttrace t @ [NewJar]) (PostForm (LoginURL c) (FormData c))),
      t\<lparr>ttrace := ttrace t @ [NewJar, Sent (PostForm (LoginURL c) (FormData c))]\<rparr>)"
  by (simp add: Reconnect_def LoginToTracker_def tSend_eq)

lemma loginError_200 [simp]: "loginError (Response 200 b) = None"
  by (simp add: loginError_def)

lemma TrackerURLs_rutracker:
  "TrackerURLs ''rutracker'' = Some ''https://rutracker.org/forum/dl.php?t=''"
  by (simp add: TrackerURLs_def)

lemma rutracker_creds: "credentials rutrackerClient ''rutracker'' = Some rutrackerCredentials"
  by (simp add: rutrackerClient_def)

lemma rutracker_trace: "ttrace rutrackerClient = []"
  by (simp add: rutrackerClient_def)

lemma rutracker_login:
  "loginOrReconnect (trackerAnswering status body) rutrackerClient ''rutracker'' =
     (None, rutrackerClient\<lparr>ttrace :=
        [Sent (PostForm (LoginURL rutrackerCredentials) (FormData rutrackerCredentials))]\<rparr>)"
  by (simp add: loginOrReconnect_def LoginToTracker_known[OF rutracker_creds] rutracker_trace)
     (simp add: trackerAnswering_def)



text \<open>
  Claim C4. With credentials and a download URL for the tracker: when every login is
  answered with status 200 and every download request with status 401, \<open>DownloadTorrent\<close>
  sends the download request exactly twice, reconnects exactly once in between, and
  fails. When a download request (the first one, or the one repeated after a transport
  failure and a reconnect) is answered with a status other than 200, 401 and 403,
  \<open>DownloadTorrent\<close> fails with that status and does nothing after that request.
\<close>

theorem download_unauthorized_retries_once:
  assumes creds: "credentials t trackerName = Some c"
    and url: "TrackerURLs trackerName = Some baseURL"
  shows "((\<forall>h. \<exists>b. tracker e h (PostForm (LoginURL c) (FormData c)) = Response 200 b) \<and>
          (\<forall>h. \<exists>b. tracker e h (Get (baseURL @ ident)) = Response 401 b) \<longrightarrow>
            (\<exists>evs. DownloadTorrent e t trackerName ident =
                      (Inl (DownloadFailedWithStatusAfterReconnection 401),
                       t\<lparr>ttrace := ttrace t @ evs\<rparr>)
                 \<and> evs = [Sent (PostForm (LoginURL c) (FormData c)), Sent (Get (baseURL @ ident)),
                          NewJar,
                          Sent (PostForm (LoginURL c) (FormData c)), Sent (Get (baseURL @ ident))]
                 \<and> downloadAttempts (baseURL @ ident) evs = 2
                 \<and> reconnectAttempts evs = 1))
       \<and> (\<forall>t1 status b.
            loginOrReconnect e t trackerName = (None, t1) \<and>
            tracker e (ttrace t1) (Get (baseURL @ ident)) = Response status b \<and>
            status \<noteq> 200 \<and> status \<noteq> 401 \<and> status \<noteq> 403 \<longrightarrow>
              DownloadTorrent e t trackerName ident =
                (Inl (DownloadFailedWithStatus status),
                 t1\<lparr>ttrace := ttrace t1 @ [Sent (Get (baseURL @ ident))]\<rparr>))
       \<and> (\<forall>t1 t2 status b.
            loginOrReconnect e t trackerName = (None, t1) \<and>
            tracker e (ttrace t1) (Get (baseURL @ ident)) = TransportError \<and>
            Reconnect e (t1\<lparr>ttrace := ttrace t1 @ [Sent (Get (baseURL @ ident))]\<rparr>) trackerName
              = (None, t2) \<and>
            tracker e (ttrace t2) (Get (baseURL @ ident)) = Response status b \<and>
            status \<noteq> 200 \<and> status \<noteq> 401 \<and> status \<noteq> 403 \<longrightarrow>
              DownloadTorrent e t trackerName ident =
                (Inl (DownloadFailedWithStatus status),
                 t2\<lparr>ttrace := ttrace t2 @ [Sent (Get (baseURL @ ident))]\<rparr>))"
proof -
  let ?login = "PostForm (LoginURL c) (FormData c)"
  let ?get = "Get (baseURL @ ident)"
  let ?evs = "[Sent ?login, Sent ?get, NewJar, Sent ?login, Sent ?get]"
  have twice: "\<exists>evs. DownloadTorrent e t trackerName ident =
                      (Inl (DownloadFailedWithStatusAfterReconnection 401),
                       t\<lparr>ttrace := ttrace t @ evs\<rparr>)
                 \<and> evs = ?evs
                 \<and> downloadAttempts (baseURL @ ident) evs = 2
                 \<and> reconnectAttempts evs = 1"
    if h: "(\<forall>h. \<exists>b. tracker e h ?login = Response 200 b) \<and>
           (\<forall>h. \<exists>b. tracker e h ?get = Response 401 b)"
  proof -
    have l: "loginError (tracker e h ?login) = None" for h
      using h by (metis loginError_200)
    obtain b1 where g1: "tracker e (ttrace t @ [Sent ?login]) ?get = Response 401 b1"
      using h by blast
    obtain b2 where g2: "tracker e (ttrace t @ [Sent ?login, Sent ?get, NewJar, Sent ?login]) ?get
                          = Response 401 b2"
      using h by blast
    have "DownloadTorrent e t trackerName ident =
            (Inl (DownloadFailedWithStatusAfterReconnection 401), t\<lparr>ttrace := ttrace t @ ?evs\<rparr>)"
      using creds url g1 g2
      by (simp add: DownloadTorrent_def loginOrReconnect_def LoginToTracker_known l
            lookupAndDownload_def download_def tSend_eq checkStatus_def Reconnect_known)
    moreover have "downloadAttempts (baseURL @ ident) ?evs = 2"
      by (simp add: downloadAttempts_def)
    moreover have "reconnectAttempts ?evs = 1"
      by (simp add: reconnectAttempts_def)
    ultimately show ?thesis by blast
  qed
  have first: "\<forall>t1 status b.
            loginOrReconnect e t trackerName = (None, t1) \<and>
            tracker e (ttrace t1) ?get = Response status b \<and>
            status \<noteq> 200 \<and> status \<noteq> 401 \<and> status \<noteq> 403 \<longrightarrow>
              DownloadTorrent e t trackerName ident =
                (Inl (DownloadFailedWithStatus status), t1\<lparr>ttrace := ttrace t1 @ [Sent ?get]\<rparr>)"
    using url
    by (simp add: DownloadTorrent_def lookupAndDownload_def download_def tSend_eq checkStatus_def)
  have second: "\<forall>t1 t2 status b.
            loginOrReconnect e t trackerName = (None, t1) \<and>
            tracker e (ttrace t1) ?get = TransportError \<and>
            Reconnect e (t1\<lparr>ttrace := ttrace t1 @ [Sent ?get]\<rparr>) trackerName = (None, t2) \<and>
            tracker e (ttrace t2) ?get = Response status b \<and>
            status \<noteq> 200 \<and> status \<noteq> 401 \<and> status \<noteq> 403 \<longrightarrow>
              DownloadTorrent e t trackerName ident =
                (Inl (DownloadFailedWithStatus status), t2\<lparr>ttrace := ttrace t2 @ [Sent ?get]\<rparr>)"
    using url
    by (simp add: DownloadTorrent_def lookupAndDownload_def download_def tSend_eq checkStatus_def)
  show ?thesis using twice first second by blast
qed

theorem download_unauthorized_witness:
  "(\<exists>t'. DownloadTorrent (trackerAnswering 401 []) rutrackerClient ''rutracker'' ''555'' =
           (Inl (DownloadFailedWithStatusAfterReconnection 401), t')
        \<and> downloadAttempts ''https://rutracker.org/forum/dl.php?t=555'' (ttrace t') = 2
        \<and> reconnectAttempts (ttrace t') = 1)
   \<and> fst (DownloadTorrent (trackerAnswering 404 []) rutrackerClient ''rutracker'' ''555'')
        = Inl (DownloadFailedWithStatus 404)"
proof -
  note inst = download_unauthorized_retries_once
         [OF rutracker_creds TrackerURLs_rutracker, of _ "''555''"]
  have a: "\<exists>t'. DownloadTorrent (trackerAnswering 401 []) rutrackerClient ''rutracker'' ''555'' =
           (Inl (DownloadFailedWithStatusAfterReconnection 401), t')
        \<and> downloadAttempts ''https://rutracker.org/forum/dl.php?t=555'' (ttrace t') = 2
        \<and> reconnectAttempts (ttrace t') = 1"
    using inst[of "trackerAnswering 401 []", THEN conjunct1]
    by (simp add: trackerAnswering_def rutracker_trace)
  have b: "fst (DownloadTorrent (trackerAnswering 404 []) rutrackerClient ''rutracker'' ''555'')
        = Inl (DownloadFailedWithStatus 404)"
    using inst[of "trackerAnswering 404 []", THEN conjunct2, THEN conjunct1, rule_format,
               of "snd (loginOrReconnect (trackerAnswering 404 []) rutrackerClient ''rutracker'')"
                  404 "Some []"]
    by (simp add: rutracker_login) (simp add: trackerAnswering_def)
  show ?thesis using a b by blast
qed











text \<open>
  Claim C7, as the code has it. \<open>DownloadTorrent\<close> reconnects after every failed login,
  whatever the failure. Without credentials for the tracker the first login fails on the
  lookup, one reconnect is made, its login fails on the same lookup, and the call fails
  with the reconnection error that wraps the missing-credentials error; no HTTP request
  is sent. With credentials, when the first login is refused and the login of the one
  reconnect is refused as well, the call fails with the reconnection error that wraps the
  second refusal, after exactly two login requests with one fresh cookie jar in between.
\<close>

theorem download_without_credentials_reconnects_once:
  "(credentials t trackerName = None \<longrightarrow>
      DownloadTorrent e t trackerName ident =
        (Inl (ReconnectionFailed (CredentialsNotFound trackerName)),
         t\<lparr>ttrace := ttrace t @ [NewJar]\<rparr>))
   \<and> (\<forall>c err1 err2.
         credentials t trackerName = Some c \<and>
         loginError (tracker e (ttrace t) (PostForm (LoginURL c) (FormData c))) = Some err1 \<and>
         loginError (tracker e (ttrace t @ [Sent (PostForm (LoginURL c) (FormData c)), NewJar])
                       (PostForm (LoginURL c) (FormData c))) = Some err2 \<longrightarrow>
           DownloadTorrent e t trackerName ident =
             (Inl (ReconnectionFailed err2),
              t\<lparr>ttrace := ttrace t @ [Sent (PostForm (LoginURL c) (FormData c)), NewJar,
                                       Sent (PostForm (LoginURL c) (FormData c))]\<rparr>))"
proof -
  have missing: "DownloadTorrent e t trackerName ident =
        (Inl (ReconnectionFailed (CredentialsNotFound trackerName)),
         t\<lparr>ttrace := ttrace t @ [NewJar]\<rparr>)"
    if "credentials t trackerName = None"
  proof -
    from that have first: "LoginToTracker e t trackerName = (Some (CredentialsNotFound trackerName), t)"
      by (simp add: LoginToTracker_def)
    from that have again: "Reconnect e t trackerName =
        (Some (CredentialsNotFound trackerName), t\<lparr>ttrace := ttrace t @ [NewJar]\<rparr>)"
      by (simp add: Reconnect_def LoginToTracker_def)
    show ?thesis
      by (simp add: DownloadTorrent_def loginOrReconnect_def first again)
  qed
  have refused: "DownloadTorrent e t trackerName ident =
             (Inl (ReconnectionFailed err2),
              t\<lparr>ttrace := ttrace t @ [Sent (PostForm (LoginURL c) (FormData c)), NewJar,
                                       Sent (PostForm (LoginURL c) (FormData c))]\<rparr>)"
    if "credentials t trackerName = Some c"
      and "loginError (tracker e (ttrace t) (PostForm (LoginURL c) (FormData c))) = Some err1"
      and "loginError (tracker e (ttrace t @ [Sent (PostForm (LoginURL c) (FormData c)), NewJar])
                       (PostForm (LoginURL c) (FormData c))) = Some err2"
    for c err1 err2
    using that
    by (simp add: DownloadTorrent_def loginOrReconnect_def LoginToTracker_known Reconnect_known)
  show ?thesis using missing refused by blast
qed

theorem download_without_credentials_witness:
  "DownloadTorrent (trackerAnswering 200 []) unconfiguredClient ''rutracker'' ''555'' =
     (Inl (ReconnectionFailed (CredentialsNotFound ''rutracker'')), unconfiguredClient\<lparr>ttrace := [NewJar]\<rparr>)
   \<and> fst (DownloadTorrent trackerRefusing rutrackerClient ''rutracker'' ''555'') =
       Inl (ReconnectionFailed (LoginFailedWithStatus 403))"
proof -
  have a: "DownloadTorrent (trackerAnswering 200 []) unconfiguredClient ''rutracker'' ''555'' =
     (Inl (ReconnectionFailed (CredentialsNotFound ''rutracker'')), unconfiguredClient\<lparr>ttrace := [NewJar]\<rparr>)"
    using download_without_credentials_reconnects_once
            [of unconfiguredClient "''rutracker''" "trackerAnswering 200 []" "''555''", THEN conjunct1]
    by (simp add: unconfiguredClient_def)
  have b: "fst (DownloadTorrent trackerRefusing rutrackerClient ''rutracker'' ''555'') =
       Inl (ReconnectionFailed (LoginFailedWithStatus 403))"
    using download_without_credentials_reconnects_once
            [of rutrackerClient "''rutracker''" trackerRefusing "''555''", THEN conjunct2, rule_format,
             of rutrackerCredentials "LoginFailedWithStatus 403" "LoginFailedWithStatus 403"]
    by (simp add: rutracker_creds loginError_def trackerRefusing_def)
  show ?thesis using a b by blast
qed

text \<open>
  Claim C7 as stated fails: without credentials one reconnect is made, and the error is
  the reconnection error.
\<close>

theorem download_without_credentials_counterexample:
  "reconnectAttempts
     (ttrace (snd (DownloadTorrent (trackerAnswering 200 []) unconfiguredClient ''rutracker'' ''555''))) = 1
   \<and> fst (DownloadTorrent (trackerAnswering 200 []) unconfiguredClient ''rutracker'' ''555'') =
       Inl (ReconnectionFailed (CredentialsNotFound ''rutracker''))"
  by (simp add: DownloadTorrent_def loginOrReconnect_def LoginToTracker_def Reconnect_def
        unconfiguredClient_def reconnectAttempts_def)


section \<open>Recognising a tracker link\<close>

lemma HasPrefix_iff: "HasPrefix s p \<longleftrightarrow> (\<exists>r. s = p @ r)"
  by (induction s p rule: HasPrefix.induct) auto

lemma Contains_iff: "Contains s sub \<longleftrightarrow> (\<exists>pre post. s = pre @ sub @ post)"
proof (induction s)
  case Nil
  then show ?case by auto
next
  case (Cons c cs)
  show ?case
  proof
    assume "Contains (c # cs) sub"
    then consider "HasPrefix (c # cs) sub" | "Contains cs sub" by auto
    then show "\<exists>pre post. c # cs = pre @ sub @ post"
    proof cases
      case 1
      then obtain r where "c # cs = sub @ r" by (auto simp: HasPrefix_iff)
      then have "c # cs = [] @ sub @ r" by simp
      then show ?thesis by blast
    next
      case 2
      then obtain pre post where "cs = pre @ sub @ post" using Cons.IH by blast
      then have "c # cs = (c # pre) @ sub @ post" by simp
      then show ?thesis by blast
    qed
  next
    assume "\<exists>pre post. c # cs = pre @ sub @ post"
    then obtain pre post where h: "c # cs = pre @ sub @ post" by blast
    show "Contains (c # cs) sub"
    proof (cases pre)
      case Nil
      with h have "HasPrefix (c # cs) sub" by (auto simp: HasPrefix_iff)
      then show ?thesis by simp
    next
      case (Cons a pre')
      with h have "cs = pre' @ sub @ post" by simp
      then have "Contains cs sub" using Cons.IH by blast
      then show ?thesis by simp
    qed
  qed
qed

lemma idRegex_Some:
  "idRegex key s = Some d \<Longrightarrow> d \<noteq> [] \<and> (\<forall>c\<in>set d. isDigit c) \<and> Contains s (key @ d)"
proof (induction s)
  case Nil
  then show ?case by simp
next
  case (Cons c cs)
  show ?case
  proof (cases "HasPrefix (c # cs) key \<and> takeWhile isDigit (drop (length key) (c # cs)) \<noteq> []")
    case True
    with Cons.prems have d: "d = takeWhile isDigit (drop (length key) (c # cs))" by simp
    from True obtain r where r: "c # cs = key @ r" by (auto simp: HasPrefix_iff)
    then have "drop (length key) (c # cs) = r" by simp
    with d have "r = d @ dropWhile isDigit r" by simp
    with r have "c # cs = [] @ (key @ d) @ dropWhile isDigit r" by simp
    then have "Contains (c # cs) (key @ d)" unfolding Contains_iff by blast
    moreover have "d \<noteq> []" using True d by simp
    moreover have "\<forall>c\<in>set d. isDigit c" using d by (auto dest: set_takeWhileD)
    ultimately show ?thesis by blast
  next
    case False
    with Cons.prems have "idRegex key cs = Some d" by auto
    from Cons.IH[OF this] show ?thesis by auto
  qed
qed
























section \<open>Pagination\<close>

lemma wrap64_id: "- (2 ^ 63) \<le> k \<Longrightarrow> k < 2 ^ 63 \<Longrightarrow> wrap64 k = k"
  by (simp add: wrap64_def)

lemma pageItems_no_overflow:
  assumes p: "0 \<le> page" and m: "0 < maxButtons"
    and fits: "page * maxButtons + maxButtons < 2 ^ 63"
  shows "pageItems torrents maxButtons page =
     (if page * maxButtons \<le> int (length torrents)
      then Some (take (nat (min ((page + 1) * maxButtons) (int (length torrents)))
                        - nat (page * maxButtons))
                   (drop (nat (page * maxButtons)) torrents))
      else None)"
proof -
  have nn: "0 \<le> page * maxButtons" using p m by simp
  have s: "wrap64 (page * maxButtons) = page * maxButtons"
    using nn fits m by (intro wrap64_id) auto
  have e: "wrap64 (page * maxButtons + maxButtons) = page * maxButtons + maxButtons"
    using nn fits m by (intro wrap64_id) auto
  have d: "(page + 1) * maxButtons = page * maxButtons + maxButtons"
    by (simp add: algebra_simps)
  show ?thesis
    using nn m by (auto simp: pageItems_def s e d sliceOf_def Let_def min_def)
qed

lemma quotient_Some: "b \<noteq> 0 \<Longrightarrow> \<exists>r. quotient a b = Some r"
  by (simp add: quotient_def)

lemma keyboard_None_iff:
  "maxButtons \<noteq> 0 \<Longrightarrow>
   (CreateTorrentListKeyboard torrents maxButtons page = None)
     = (pageItems torrents maxButtons page = None)"
  using quotient_Some[of maxButtons "wrap64 (wrap64 (int (length torrents) + maxButtons) - 1)"]
  by (auto simp: CreateTorrentListKeyboard_def Let_def split: option.splits)

lemma status_None_iff:
  assumes g: "GetTorrents e q [] = (Inr torrents, q1)" and n: "torrents \<noteq> []"
  shows "(fst (HandleTorrentStatus e q page) = None) = (pageItems torrents 10 page = None)"
  using quotient_Some[of 10 "wrap64 (wrap64 (int (length torrents) + 10) - 1)"]
        keyboard_None_iff[of 10 torrents page] g n
  by (auto simp: HandleTorrentStatus_def split: option.splits)

text \<open>
  Claim C10, as the code has it. For a page number that is not negative, a positive page
  size, and start and end indices \<open>page * size\<close> and \<open>page * size + size\<close> that fit the
  64-bit \<open>int\<close>: the page is the slice of the list from \<open>page * size\<close> up to the smaller
  of \<open>(page + 1) * size\<close> and the length of the list. Only the end index is clamped, so
  the slice expression is within bounds exactly when \<open>page * size\<close> is at most the length
  of the list; otherwise \<open>CreateTorrentListKeyboard\<close> and, on a non-empty list,
  \<open>HandleTorrentStatus\<close> end in a run-time panic.
\<close>

theorem page_slice_in_bounds_iff:
  assumes p: "0 \<le> page" and m: "0 < maxButtons"
    and fits: "page * maxButtons + maxButtons < 2 ^ 63"
  shows "pageItems torrents maxButtons page =
           (if page * maxButtons \<le> int (length torrents)
            then Some (take (nat (min ((page + 1) * maxButtons) (int (length torrents)))
                              - nat (page * maxButtons))
                         (drop (nat (page * maxButtons)) torrents))
            else None)
       \<and> (CreateTorrentListKeyboard torrents maxButtons page = None)
           = (int (length torrents) < page * maxButtons)
       \<and> (\<forall>e q q1. maxButtons = 10 \<and> GetTorrents e q [] = (Inr torrents, q1) \<and> torrents \<noteq> [] \<longrightarrow>
             (fst (HandleTorrentStatus e q page) = None) = (int (length torrents) < page * 10))"
proof -
  note a = pageItems_no_overflow[OF p m fits, of torrents]
  have b: "(pageItems torrents maxButtons page = None) = (int (length torrents) < page * maxButtons)"
    unfolding a by auto
  then have c: "(CreateTorrentListKeyboard torrents maxButtons page = None)
           = (int (length torrents) < page * maxButtons)"
    using keyboard_None_iff[of maxButtons torrents page] m by simp
  have d: "\<forall>e q q1. maxButtons = 10 \<and> GetTorrents e q [] = (Inr torrents, q1) \<and> torrents \<noteq> [] \<longrightarrow>
             (fst (HandleTorrentStatus e q page) = None) = (int (length torrents) < page * 10)"
    using b status_None_iff by auto
  from a c d show ?thesis by blast
qed

theorem page_slice_witness:
  "pageItems [stamped 1, stamped 2, stamped 3] 2 1 = Some [stamped 3]
   \<and> pageItems [stamped 1, stamped 2, stamped 3] 2 2 = None
   \<and> CreateTorrentListKeyboard [stamped 1, stamped 2, stamped 3] 2 2 = None"
proof -
  have a: "(0::int) \<le> 1" "(0::int) < 2" "(1::int) * 2 + 2 < 2 ^ 63"
          "(0::int) \<le> 2" "(2::int) * 2 + 2 < 2 ^ 63" by simp_all
  from page_slice_in_bounds_iff[OF a(1) a(2) a(3), of "[stamped 1, stamped 2, stamped 3]"]
       page_slice_in_bounds_iff[OF a(4) a(2) a(5), of "[stamped 1, stamped 2, stamped 3]"]
  show ?thesis by simp
qed

text \<open>
  Claim C10 as stated fails where the product wraps around, whether \<open>page * size\<close> is read
  as the product of the two numbers or as the \<open>int\<close> the code computes. For page
  \<open>2 ^ 62\<close> and page size 20 (the size \<open>handleListPagination\<close> passes) the start index is
  0, so the slice of a list of one record is within bounds although the product exceeds
  its length. For page \<open>2 ^ 59\<close> the start index is negative, so the slice expression
  panics although the computed \<open>int\<close> does not exceed the length.
\<close>

theorem page_slice_overflow_counterexample:
  "pageItems [stamped 1] 20 (2 ^ 62) = Some [stamped 1]
   \<and> \<not> ((2 ^ 62) * 20 \<le> int (length [stamped 1]))
   \<and> pageItems [stamped 1] 20 (2 ^ 59) = None
   \<and> wrap64 ((2 ^ 59) * 20) \<le> int (length [stamped 1])"
  by (simp add: pageItems_def wrap64_def sliceOf_def)

section \<open>The pending-link table and the allow-list\<close>

lemma apiCall_pending [simp]: "pendingLinks (snd (apiCall c b call)) = pendingLinks b"
  by (simp add: apiCall_def)

lemma sendErrorMessage_pending [simp]: "pendingLinks (sendErrorMessage c b chatID txt) = pendingLinks b"
  by (simp add: sendErrorMessage_def)

lemma apiCall_clients [simp]:
  "trackerClient (snd (apiCall c b call)) = trackerClient b"
  "qbtClient (snd (apiCall c b call)) = qbtClient b"
  "botConfig (snd (apiCall c b call)) = botConfig b"
  by (simp_all add: apiCall_def)

lemma handleTorrentLink_pending:
  "pendingLinks (handleTorrentLink c b (Message chatID txt isCommand command args))
     = (pendingLinks b)(chatID \<mapsto> txt)"
  by (simp add: handleTorrentLink_def apiCall_def sendErrorMessage_def Let_def split: bool.splits)

lemma handleTorrentDownload_pending:
  "pendingLinks (handleTorrentDownload e c b chatID messageID link key) =
     (case TorrentCategories (botConfig b) key of
        None \<Rightarrow> pendingLinks b
      | Some category \<Rightarrow>
          (case ProcessTorrentLink link of
             Inl err \<Rightarrow> pendingLinks b
           | Inr (trackerName, ident) \<Rightarrow>
               (case fst (DownloadAndAddTorrent e (trackerClient b) (qbtClient b) trackerName ident
                            (CategorySavePath category)) of
                  Inl err \<Rightarrow> pendingLinks b
                | Inr result \<Rightarrow> (pendingLinks b)(chatID := None))))"
  by (simp add: handleTorrentDownload_def Let_def split: option.splits sum.splits prod.splits)

lemma handleCallbackQuery_category:
  assumes "HasSuffix data ''.''" and "pendingLinks b chatID = Some link" and "link \<noteq> []"
  shows "handleCallbackQuery e c b (CallbackQuery queryID data chatID messageID) =
           handleTorrentDownload e c (snd (apiCall c b (AnswerCallback queryID))) chatID messageID
             link data"
  using assms by (simp add: handleCallbackQuery_def Let_def pendingLink_def)

text \<open>
  Claim C3, as the code has it. The table is a map from the requester to one link, so a
  requester never has two entries. \<open>handleTorrentLink\<close> sets the entry of the requester
  to the new text, whatever was there, and leaves the other entries alone. A callback
  token that ends in a dot, for a requester with a pending link, removes the entry only
  when the category is known, the link is recognised and the download and the add both
  succeed; on each of the three failures the table is left as it was.
\<close>

theorem pending_link_overwritten_and_cleared_on_success:
  "pendingLinks (handleTorrentLink c b (Message chatID txt isCommand command args))
     = (pendingLinks b)(chatID \<mapsto> txt)
   \<and> (HasSuffix data ''.'' \<and> pendingLinks b chatID = Some link \<and> link \<noteq> [] \<longrightarrow>
        pendingLinks (handleCallbackQuery e c b (CallbackQuery queryID data chatID messageID)) =
          (case TorrentCategories (botConfig b) data of
             None \<Rightarrow> pendingLinks b
           | Some category \<Rightarrow>
               (case ProcessTorrentLink link of
                  Inl err \<Rightarrow> pendingLinks b
                | Inr (trackerName, ident) \<Rightarrow>
                    (case fst (DownloadAndAddTorrent e (trackerClient b) (qbtClient b) trackerName
                                 ident (CategorySavePath category)) of
                       Inl err \<Rightarrow> pendingLinks b
                     | Inr result \<Rightarrow> (pendingLinks b)(chatID := None)))))"
proof -
  have "pendingLinks (handleCallbackQuery e c b (CallbackQuery queryID data chatID messageID)) =
          (case TorrentCategories (botConfig b) data of
             None \<Rightarrow> pendingLinks b
           | Some category \<Rightarrow>
               (case ProcessTorrentLink link of
                  Inl err \<Rightarrow> pendingLinks b
                | Inr (trackerName, ident) \<Rightarrow>
                    (case fst (DownloadAndAddTorrent e (trackerClient b) (qbtClient b) trackerName
                                 ident (CategorySavePath category)) of
                       Inl err \<Rightarrow> pendingLinks b
                     | Inr result \<Rightarrow> (pendingLinks b)(chatID := None))))"
    if "HasSuffix data ''.'' \<and> pendingLinks b chatID = Some link \<and> link \<noteq> []"
    using that
    by (simp add: handleCallbackQuery_category handleTorrentDownload_pending
          split: option.splits sum.splits prod.splits)
  then show ?thesis using handleTorrentLink_pending by blast
qed

lemma link_matches: "torrentLinkRegex rutrackerLink"
  unfolding rutrackerLink_def by code_simp

lemma link_processed: "ProcessTorrentLink rutrackerLink = Inr (''rutracker'', ''555'')"
  unfolding rutrackerLink_def by code_simp

lemma movies_suffix: "HasSuffix ''Movies.'' ''.''"
  by code_simp


theorem pending_link_witness:
  "pendingLinks (handleCallbackQuery servingEnv quietChat
                   (exampleBot\<lparr>pendingLinks := [1000 \<mapsto> rutrackerLink]\<rparr>)
                   (CallbackQuery ''q'' ''Movies.'' 1000 7)) 1000 = None"
proof -
  have d: "fst (DownloadAndAddTorrent servingEnv rutrackerClient freshClient ''rutracker'' ''555'' ''/movies'')
             = Inr (''t'', [], ''/d'')"
    by code_simp
  have l: "rutrackerLink \<noteq> []" by (simp add: rutrackerLink_def)
  from pending_link_overwritten_and_cleared_on_success
         [of quietChat "exampleBot\<lparr>pendingLinks := [1000 \<mapsto> rutrackerLink]\<rparr>" 1000 "[]" False "[]" "[]"
             "''Movies.''" rutrackerLink servingEnv "''q''" 7, THEN conjunct2]
  show ?thesis
    using movies_suffix l
    by (simp add: link_processed d exampleBot_def exampleConfig_def)
qed

text \<open>
  Claim C3 as stated fails: the requester has a pending link and presses a category, the
  tracker refuses the login, the submit fails, and the entry is still in the table.
\<close>

theorem pending_link_kept_on_failure_counterexample:
  "pendingLinks (handleCallbackQuery trackerRefusing quietChat
                   (exampleBot\<lparr>pendingLinks := [1000 \<mapsto> rutrackerLink]\<rparr>)
                   (CallbackQuery ''q'' ''Movies.'' 1000 7)) 1000 = Some rutrackerLink"
  by code_simp

text \<open>
  Only \<open>handleCommand\<close> consults the allow-list: a command of a requester who is not on
  the list changes nothing but the log of the chat transport.
\<close>

lemma unauthorized_command_rejected:
  "chatID \<notin> set (AllowedUsers (botConfig b)) \<Longrightarrow>
   handleCommand c b (Message chatID txt isCommand command args)
     = b\<lparr>api := api b @ [SendText chatID NotAuthorized]\<rparr>"
  by (simp add: handleCommand_def apiCall_def)

text \<open>
  Claim C2 does not hold of the code. The requester 666 is not on the allow-list. The
  message with a tracker link is stored in the pending-link table under 666, and the
  category token that follows makes the bot log in to the tracker, download the payload
  and upload it to the daemon.
\<close>

theorem unauthorized_requester_is_served:
  "666 \<notin> set (AllowedUsers (botConfig exampleBot))
   \<and> pendingLinks (handleUpdate servingEnv quietChat exampleBot
                      (Update None (Some (Message 666 rutrackerLink False [] [])))) 666
       = Some rutrackerLink
   \<and> ttrace (trackerClient
        (handleUpdate servingEnv quietChat
           (handleUpdate servingEnv quietChat exampleBot
              (Update None (Some (Message 666 rutrackerLink False [] []))))
           (Update (Some (CallbackQuery ''q'' ''Movies.'' 666 7)) None)))
       = [Sent (PostForm (LoginURL rutrackerCredentials) (FormData rutrackerCredentials)),
          Sent (Get ''https://rutracker.org/forum/dl.php?t=555'')]
   \<and> Sent (addRequest (config freshClient) ''d8:announce3:urle'' ''/movies'')
       \<in> set (qtrace (qbtClient
        (handleUpdate servingEnv quietChat
           (handleUpdate servingEnv quietChat exampleBot
              (Update None (Some (Message 666 rutrackerLink False [] []))))
           (Update (Some (CallbackQuery ''q'' ''Movies.'' 666 7)) None))))"
  by code_simp


end
